theory Spec2Isabelle
  imports Main "HOL-Library.Word"
begin

section \<open>Values handled by \<^verbatim>\<open>document_processor/processor.py\<close>\<close>

text \<open>
  Paths are kept as their text; \<^verbatim>\<open>Path(s)\<close> is the conversion of a \<^verbatim>\<open>str\<close> and
  \<^verbatim>\<open>p / s\<close> appends one more component. The normalisation that \<^verbatim>\<open>pathlib\<close>
  performs on redundant separators is not part of the model.
\<close>

type_synonym path = string
type_synonym bytes = "8 word list"

definition Path :: "string \<Rightarrow> path" where
  "Path s = s"

definition joinpath :: "path \<Rightarrow> string \<Rightarrow> path" where
  "joinpath p s = p @ ''/'' @ s"

datatype path_or_str = Str string | PathV path

text \<open>
  Exceptions. Every constructor stands for a subclass of Python's \<^verbatim>\<open>Exception\<close> and
  carries the message that \<^verbatim>\<open>str(e)\<close> yields. \<open>OtherError cls msg\<close> is any other
  \<^verbatim>\<open>Exception\<close> raised by the PDF library or by the operating system
  (\<^verbatim>\<open>PdfReadError\<close>, \<^verbatim>\<open>OSError\<close>, ...).

  Modelled from the spec: \<^verbatim>\<open>ImageExtractionError\<close> is imported from the module
  \<^verbatim>\<open>exceptions\<close> of the package, which is not among the sources. The specification
  calls it a distinct, catchable error wrapping the underlying cause, so it is one more
  \<^verbatim>\<open>Exception\<close> subclass constructed from a message.
\<close>

datatype exn =
    FileNotFoundError string
  | ValueError string
  | TypeError string
  | AttributeError string
  | IndexError string
  | ImageExtractionError string
  | OtherError string string

fun str_exn :: "exn \<Rightarrow> string" where
  "str_exn (FileNotFoundError m) = m"
| "str_exn (ValueError m) = m"
| "str_exn (TypeError m) = m"
| "str_exn (AttributeError m) = m"
| "str_exn (IndexError m) = m"
| "str_exn (ImageExtractionError m) = m"
| "str_exn (OtherError c m) = m"

text \<open>A word between single quotes, as the interpreter's own messages show type names.\<close>

definition quoted :: "string \<Rightarrow> string" where
  "quoted s = [CHR 0x27] @ s @ [CHR 0x27]"

text \<open>The decimal text of a counter, as \<^verbatim>\<open>f"{count}"\<close> formats it.\<close>

definition digit_char :: "nat \<Rightarrow> char" where
  "digit_char d = ''0123456789'' ! d"

fun str_nat :: "nat \<Rightarrow> string" where
  "str_nat n = (if n < 10 then [digit_char n]
                else str_nat (n div 10) @ [digit_char (n mod 10)])"

declare str_nat.simps [simp del]

text \<open>Values stored in the metadata dictionary: an integer, a string or \<^verbatim>\<open>None\<close>.\<close>

datatype pyval = IntV int | StrV string | NoneV

type_synonym meta_dict = "string \<rightharpoonup> pyval"

fun opt_str :: "string option \<Rightarrow> pyval" where
  "opt_str None = NoneV"
| "opt_str (Some s) = StrV s"

section \<open>The PDF library and the file system\<close>

text \<open>
  The objects of \<^verbatim>\<open>PyPDF2\<close> as the program reads them. An embedded image has a
  \<^verbatim>\<open>name\<close> and its \<^verbatim>\<open>data\<close>. A page answers \<^verbatim>\<open>extract_text()\<close> with a string or
  an exception, and iterating \<^verbatim>\<open>page.images\<close> yields image objects one at a time,
  each of which may fail to materialise. A reader has \<^verbatim>\<open>metadata\<close>, which the library
  documents as \<^verbatim>\<open>Optional[DocumentInformation]\<close> (\<^verbatim>\<open>None\<close> when the file has no
  information dictionary), and \<^verbatim>\<open>pages\<close>, a sequence whose items may fail to
  materialise as well. The attributes of \<^verbatim>\<open>DocumentInformation\<close> are optional strings.

  Reading \<^verbatim>\<open>reader.metadata\<close> and \<^verbatim>\<open>len(reader.pages)\<close> is taken to return. A reader on
  which these accesses themselves raise (a file that is still encrypted, say) is not
  described by this record, and every statement below that concerns the metadata stage
  fixes \<^verbatim>\<open>metadata\<close> in its hypotheses.
\<close>

record image_file =
  name :: string
  data :: bytes

record page_object =
  extract_text :: "exn + string"
  images :: "(exn + image_file) list"

record document_information =
  title :: "string option"
  author :: "string option"
  subject :: "string option"
  producer :: "string option"
  creator :: "string option"

record pdf_reader =
  metadata :: "document_information option"
  pages :: "(exn + page_object) list"

text \<open>
  The world the program acts on: the entries of the file system and the lines printed so
  far.
\<close>

datatype entry = File bytes | Dir

record world =
  files :: "path \<rightharpoonup> entry"
  stdout :: "string list"

text \<open>
  The behaviour of the external collaborators, left open: what \<^verbatim>\<open>PdfReader(path)\<close>
  answers, whether \<^verbatim>\<open>open(path, "wb")\<close> fails, and whether \<^verbatim>\<open>fp.write(data)\<close> fails
  (and then which bytes reached the file). Each may depend on the current world.
\<close>

record env =
  PdfReader :: "world \<Rightarrow> path \<Rightarrow> exn + pdf_reader"
  open_wb :: "world \<Rightarrow> path \<Rightarrow> exn option"
  fp_write :: "world \<Rightarrow> path \<Rightarrow> bytes \<Rightarrow> (exn \<times> bytes) option"

definition print :: "string \<Rightarrow> world \<Rightarrow> world" where
  "print s w = w\<lparr>stdout := stdout w @ [s]\<rparr>"

definition path_exists :: "path \<Rightarrow> world \<Rightarrow> bool" where
  "path_exists p w = (files w p \<noteq> None)"

definition put_file :: "path \<Rightarrow> bytes \<Rightarrow> world \<Rightarrow> world" where
  "put_file p b w = w\<lparr>files := (files w)(p \<mapsto> File b)\<rparr>"

text \<open>\<^verbatim>\<open>reader.pages[i]\<close> for an index that is not negative.\<close>

definition pages_getitem :: "pdf_reader \<Rightarrow> nat \<Rightarrow> exn + page_object" where
  "pages_getitem reader i =
     (if i < length (pages reader) then pages reader ! i
      else Inl (IndexError ''sequence index out of range''))"

section \<open>The functions of the module\<close>

subsection \<open>\<^verbatim>\<open>get_document\<close> and \<^verbatim>\<open>read_document\<close>\<close>

definition get_document :: "path_or_str \<Rightarrow> world \<Rightarrow> exn + path" where
  "get_document document_path w =
     (let p = (case document_path of Str s \<Rightarrow> Path s | PathV q \<Rightarrow> q) in
      if \<not> path_exists p w
      then Inl (FileNotFoundError (''File '' @ p @ '' not found''))
      else Inr p)"

definition read_document ::
  "env \<Rightarrow> path \<Rightarrow> world \<Rightarrow> (exn + pdf_reader option) \<times> world" where
  "read_document E document_path w =
     (case get_document (PathV document_path) w of
        Inl e \<Rightarrow> (Inl e, w)
      | Inr p \<Rightarrow>
          (case PdfReader E w p of
             Inl e \<Rightarrow> (Inr None, print (''Error reading document: '' @ str_exn e) w)
           | Inr reader \<Rightarrow> (Inr (Some reader), w)))"

subsection \<open>\<^verbatim>\<open>get_document_meta_data\<close>\<close>

text \<open>The argument is a \<^verbatim>\<open>Path\<close>, a \<^verbatim>\<open>PdfReader\<close> or \<^verbatim>\<open>None\<close>.\<close>

datatype document_arg = APath path | AReader pdf_reader | ANone

fun reader_arg :: "pdf_reader option \<Rightarrow> document_arg" where
  "reader_arg None = ANone"
| "reader_arg (Some r) = AReader r"

text \<open>
  Lines 143 to 156: with no reader the answer is \<^verbatim>\<open>None\<close>; otherwise the dictionary is
  filled from \<^verbatim>\<open>reader.metadata\<close>, and reading an attribute of \<^verbatim>\<open>None\<close> raises
  \<^verbatim>\<open>AttributeError\<close>.
\<close>

definition meta_data_of :: "pdf_reader option \<Rightarrow> exn + meta_dict option" where
  "meta_data_of reader =
     (case reader of
        None \<Rightarrow> Inr None
      | Some r \<Rightarrow>
          (case metadata r of
             None \<Rightarrow> Inl (AttributeError
                    (quoted ''NoneType'' @ '' object has no attribute '' @ quoted ''title''))
           | Some d \<Rightarrow>
               Inr (Some (Map.empty
                 (''num_pages'' \<mapsto> IntV (int (length (pages r))),
                  ''title'' \<mapsto> opt_str (title d),
                  ''author'' \<mapsto> opt_str (author d),
                  ''subject'' \<mapsto> opt_str (subject d),
                  ''producer'' \<mapsto> opt_str (producer d),
                  ''creator'' \<mapsto> opt_str (creator d))))))"

definition get_document_meta_data ::
  "env \<Rightarrow> document_arg \<Rightarrow> world \<Rightarrow> (exn + meta_dict option) \<times> world" where
  "get_document_meta_data E document w =
     (case (case document of
              APath p \<Rightarrow>
                (case get_document (PathV p) w of
                   Inl e \<Rightarrow> (Inl e, w)
                 | Inr d \<Rightarrow> read_document E d w)
            | AReader r \<Rightarrow> (Inr (Some r), w)
            | ANone \<Rightarrow> (Inr None, w)) of
        (Inl e, w1) \<Rightarrow> (Inl e, w1)
      | (Inr reader, w1) \<Rightarrow> (meta_data_of reader, w1))"

subsection \<open>\<^verbatim>\<open>extract_image\<close>\<close>

definition image_path :: "path \<Rightarrow> nat \<Rightarrow> string \<Rightarrow> path" where
  "image_path storage_path count nm = joinpath storage_path (str_nat count @ ''_'' @ nm)"

definition wrap_image_error :: "exn \<Rightarrow> exn" where
  "wrap_image_error e = ImageExtractionError (''Error extracting image: '' @ str_exn e)"

text \<open>
  The \<^verbatim>\<open>for\<close> loop, with the counter and the list of saved paths as accumulators.
  Opening the file for writing truncates it; a failed write leaves the bytes that reached
  it.
\<close>

fun extract_image_loop ::
  "env \<Rightarrow> path \<Rightarrow> (exn + image_file) list \<Rightarrow> nat \<Rightarrow> path list \<Rightarrow> world
     \<Rightarrow> (exn + path list) \<times> world" where
  "extract_image_loop E storage_path [] count acc w = (Inr acc, w)"
| "extract_image_loop E storage_path (Inl e # rest) count acc w = (Inl e, w)"
| "extract_image_loop E storage_path (Inr image_file_object # rest) count acc w =
     (let p = image_path storage_path count (name image_file_object) in
      case open_wb E w p of
        Some e \<Rightarrow> (Inl (wrap_image_error e), w)
      | None \<Rightarrow>
          (let w1 = put_file p [] w in
           case fp_write E w1 p (data image_file_object) of
             Some (e, written) \<Rightarrow> (Inl (wrap_image_error e), put_file p written w1)
           | None \<Rightarrow>
               extract_image_loop E storage_path rest (count + 1) (acc @ [p])
                 (put_file p (data image_file_object) w1)))"

definition extract_image ::
  "env \<Rightarrow> page_object \<Rightarrow> path \<Rightarrow> world \<Rightarrow> (exn + path list) \<times> world" where
  "extract_image E page storage_path w =
     extract_image_loop E storage_path (images page) 0 [] w"

subsection \<open>\<^verbatim>\<open>extract_data_from_page\<close>\<close>

text \<open>
  The body of the \<^verbatim>\<open>try\<close> block, lines 222 to 224, for a reader that is an object.
  (On \<^verbatim>\<open>None\<close> the attribute access \<^verbatim>\<open>reader.pages\<close> raises inside the block; that
  branch is written out in \<open>extract_data_from_page\<close> below.)
\<close>

definition try_extract ::
  "env \<Rightarrow> pdf_reader \<Rightarrow> nat \<Rightarrow> path \<Rightarrow> world
     \<Rightarrow> (exn + string \<times> path list) \<times> world" where
  "try_extract E reader page_number storage_path w =
     (case pages_getitem reader page_number of
        Inl e \<Rightarrow> (Inl e, w)
      | Inr page \<Rightarrow>
          (case extract_text page of
             Inl e \<Rightarrow> (Inl e, w)
           | Inr text \<Rightarrow>
               (case extract_image E page storage_path w of
                  (Inl e, w1) \<Rightarrow> (Inl e, w1)
                | (Inr imgs, w1) \<Rightarrow> (Inr (text, imgs), w1))))"

definition extract_data_from_page ::
  "env \<Rightarrow> document_arg \<Rightarrow> int \<Rightarrow> path \<Rightarrow> world
     \<Rightarrow> (exn + (string \<times> path list \<times> meta_dict) option) \<times> world" where
  "extract_data_from_page E reader page_number0 storage_path w =
     (let page_number = page_number0 - 1 in
      if page_number < 0
      then (Inl (ValueError ''Page number should be greater than 0''), w)
      else
        (case reader of
           ANone \<Rightarrow> (Inr None, w)
         | _ \<Rightarrow>
           (case (case reader of
                    APath p \<Rightarrow> read_document E p w
                  | AReader r \<Rightarrow> (Inr (Some r), w)
                  | ANone \<Rightarrow> (Inr None, w)) of
              (Inl e, w1) \<Rightarrow> (Inl e, w1)
            | (Inr reader1, w1) \<Rightarrow>
                (case get_document_meta_data E (reader_arg reader1) w1 of
                   (Inl e, w2) \<Rightarrow> (Inl e, w2)
                 | (Inr None, w2) \<Rightarrow>
                     (Inl (TypeError
                        (quoted ''NoneType'' @ '' object does not support item assignment'')),
                      w2)
                 | (Inr (Some meta_data0), w2) \<Rightarrow>
                     (let meta_data = meta_data0(''page'' \<mapsto> IntV (page_number + 1)) in
                      case (case reader1 of
                              None \<Rightarrow>
                                (Inl (AttributeError
                                   (quoted ''NoneType'' @ '' object has no attribute ''
                                      @ quoted ''pages'')), w2)
                            | Some r \<Rightarrow> try_extract E r (nat page_number) storage_path w2) of
                        (Inl e, w3) \<Rightarrow>
                          (Inr None, print (''Error extracting text: '' @ str_exn e) w3)
                      | (Inr (text, imgs), w3) \<Rightarrow>
                          (Inr (Some (text, imgs, meta_data)), w3))))))"

section \<open>Reading decimal text back\<close>

text \<open>
  The inverse of \<open>str_nat\<close>, used to show that different counters give different file
  names.
\<close>

definition digit_val :: "char \<Rightarrow> nat" where
  "digit_val c = of_char c - 48"

definition nat_of_str :: "string \<Rightarrow> nat" where
  "nat_of_str s = foldl (\<lambda>a c. 10 * a + digit_val c) 0 s"

section \<open>Concrete documents, pages and platforms\<close>

text \<open>
  Inputs on which the theorems below are exercised: a platform on which every decode
  fails and every write succeeds, one whose storage directory turns read-only once the
  first image is on disk, one on which writing the second image fails for lack of space, a disk holding one undecodable file, and a few readers.
\<close>

definition failing_env :: env where
  "failing_env =
     \<lparr>PdfReader = (\<lambda>w p. Inl (OtherError ''PdfReadError'' ''EOF marker not found'')),
      open_wb = (\<lambda>w p. None),
      fp_write = (\<lambda>w p d. None)\<rparr>"

definition disk0 :: world where
  "disk0 = \<lparr>files = [''broken.pdf'' \<mapsto> File []], stdout = []\<rparr>"

definition blank_page :: page_object where
  "blank_page = \<lparr>extract_text = Inr ''hello'', images = []\<rparr>"

definition unreadable_page :: page_object where
  "unreadable_page =
     \<lparr>extract_text = Inl (OtherError ''PdfReadError'' ''bad content stream''), images = []\<rparr>"

definition example_info :: document_information where
  "example_info =
     \<lparr>title = Some ''Example Title'', author = Some ''Author Name'',
      subject = Some ''Example Subject'', producer = Some ''PDF Producer'',
      creator = Some ''PDF Creator''\<rparr>"

definition example_meta :: meta_dict where
  "example_meta =
     [''num_pages'' \<mapsto> IntV 10, ''title'' \<mapsto> StrV ''Example Title'',
      ''author'' \<mapsto> StrV ''Author Name'', ''subject'' \<mapsto> StrV ''Example Subject'',
      ''producer'' \<mapsto> StrV ''PDF Producer'', ''creator'' \<mapsto> StrV ''PDF Creator'']"

definition example_reader :: pdf_reader where
  "example_reader = \<lparr>metadata = Some example_info, pages = replicate 10 (Inr blank_page)\<rparr>"

definition bare_reader :: pdf_reader where
  "bare_reader = \<lparr>metadata = None, pages = [Inr blank_page]\<rparr>"

definition unreadable_reader :: pdf_reader where
  "unreadable_reader = \<lparr>metadata = Some example_info, pages = [Inr unreadable_page]\<rparr>"

definition img1 :: image_file where
  "img1 = \<lparr>name = ''img1.png'', data = [1, 2]\<rparr>"

definition img2 :: image_file where
  "img2 = \<lparr>name = ''img2.png'', data = [3]\<rparr>"

definition two_image_page :: page_object where
  "two_image_page = \<lparr>extract_text = Inr ''two pictures'', images = [Inr img1, Inr img2]\<rparr>"

definition readonly_after_first :: env where
  "readonly_after_first =
     \<lparr>PdfReader = (\<lambda>w p. Inl (OtherError ''PdfReadError'' ''EOF marker not found'')),
      open_wb = (\<lambda>w p. if files w ''images/0_img1.png'' \<noteq> None
                         then Some (OtherError ''PermissionError'' ''[Errno 13] Permission denied'')
                         else None),
      fp_write = (\<lambda>w p d. None)\<rparr>"

definition disk_full_after_first :: env where
  "disk_full_after_first =
     \<lparr>PdfReader = (\<lambda>w p. Inl (OtherError ''PdfReadError'' ''EOF marker not found'')),
      open_wb = (\<lambda>w p. None),
      fp_write = (\<lambda>w p d. if p = ''images/1_img2.png''
                           then Some (OtherError ''OSError''
                                        ''[Errno 28] No space left on device'', [])
                           else None)\<rparr>"

definition picture_reader :: pdf_reader where
  "picture_reader = \<lparr>metadata = Some example_info, pages = [Inr two_image_page]\<rparr>"

section \<open>Counters and file names\<close>

lemma digit_val_digit_char: "d < 10 \<Longrightarrow> digit_val (digit_char d) = d"
proof -
  assume "d < 10"
  then consider "d = 0" | "d = 1" | "d = 2" | "d = 3" | "d = 4" | "d = 5" | "d = 6" | "d = 7" | "d = 8" | "d = 9"
    by atomize_elim arith
  then show ?thesis
    by cases (simp_all add: digit_val_def digit_char_def)
qed

lemma digit_char_not_underscore: "d < 10 \<Longrightarrow> digit_char d \<noteq> CHR ''_''"
proof -
  assume "d < 10"
  then consider "d = 0" | "d = 1" | "d = 2" | "d = 3" | "d = 4" | "d = 5" | "d = 6" | "d = 7" | "d = 8" | "d = 9"
    by atomize_elim arith
  then show ?thesis
    by cases (simp_all add: digit_char_def)
qed

lemma nat_of_str_str_nat: "nat_of_str (str_nat n) = n"
proof (induction n rule: str_nat.induct)
  case (1 n)
  show ?case
  proof (cases "n < 10")
    case True
    then show ?thesis
      by (subst str_nat.simps) (simp add: nat_of_str_def digit_val_digit_char)
  next
    case False
    with 1 have "nat_of_str (str_nat (n div 10)) = n div 10" by simp
    with False show ?thesis
      by (subst str_nat.simps) (simp add: nat_of_str_def digit_val_digit_char)
  qed
qed

lemma str_nat_inj: "str_nat i = str_nat j \<Longrightarrow> i = j"
  by (metis nat_of_str_str_nat)

lemma str_nat_no_underscore: "CHR ''_'' \<notin> set (str_nat n)"
proof (induction n rule: str_nat.induct)
  case (1 n)
  show ?case
  proof (cases "n < 10")
    case True
    then show ?thesis
      using digit_char_not_underscore [of n] by (subst str_nat.simps) auto
  next
    case False
    with 1 have "CHR ''_'' \<notin> set (str_nat (n div 10))" by simp
    moreover have "digit_char (n mod 10) \<noteq> CHR ''_''"
      by (rule digit_char_not_underscore) simp
    ultimately show ?thesis
      using False by (subst str_nat.simps) auto
  qed
qed

lemma counter_prefix:
  "takeWhile (\<lambda>c. c \<noteq> CHR ''_'') (str_nat i @ ''_'' @ a) = str_nat i"
proof -
  have "takeWhile (\<lambda>c. c \<noteq> CHR ''_'') (str_nat i @ CHR ''_'' # a)
        = takeWhile (\<lambda>c. c \<noteq> CHR ''_'') (str_nat i)"
    by (rule takeWhile_tail) simp
  also have "\<dots> = str_nat i"
    using str_nat_no_underscore [of i] by auto
  finally show ?thesis by simp
qed

lemma image_path_inj:
  assumes "image_path sp i a = image_path sp j b"
  shows "i = j"
proof -
  from assms have "str_nat i @ ''_'' @ a = str_nat j @ ''_'' @ b"
    by (simp add: image_path_def joinpath_def)
  then have "str_nat i = str_nat j"
    using counter_prefix [of i a] counter_prefix [of j b] by simp
  then show ?thesis by (rule str_nat_inj)
qed

lemma str_nat_0: "str_nat 0 = ''0''"
  by (subst str_nat.simps) (simp add: digit_char_def)

lemma str_nat_1: "str_nat (Suc 0) = ''1''"
  by (subst str_nat.simps) (simp add: digit_char_def)

section \<open>The image loop\<close>

lemma files_put_file: "files (put_file p b w) = (files w)(p \<mapsto> File b)"
  by (simp add: put_file_def)

lemma stdout_put_file: "stdout (put_file p b w) = stdout w"
  by (simp add: put_file_def)

lemma put_file_twice: "put_file p b (put_file p a w) = put_file p b w"
  by (simp add: put_file_def)

lemma loop_step_ok:
  assumes "extract_image_loop E sp (Inr im # rest) c acc w = (Inr paths, w1)"
  shows "open_wb E w (image_path sp c (name im)) = None
       \<and> fp_write E (put_file (image_path sp c (name im)) [] w)
            (image_path sp c (name im)) (data im) = None
       \<and> extract_image_loop E sp rest (Suc c) (acc @ [image_path sp c (name im)])
            (put_file (image_path sp c (name im)) (data im) w) = (Inr paths, w1)"
  using assms
  by (auto simp add: Let_def put_file_twice split: option.splits prod.splits)

lemma loop_prefix:
  "extract_image_loop E sp (map Inr pre) c acc w = (Inr paths, w1) \<Longrightarrow>
   extract_image_loop E sp (map Inr pre @ rest) c acc w
     = extract_image_loop E sp rest (c + length pre) paths w1"
proof (induction pre arbitrary: c acc w)
  case Nil
  then show ?case by simp
next
  case (Cons im pre)
  from Cons.prems have s: "extract_image_loop E sp (Inr im # map Inr pre) c acc w = (Inr paths, w1)"
    by simp
  note st = loop_step_ok [OF s]
  from st have "extract_image_loop E sp (map Inr pre @ rest) (Suc c)
                  (acc @ [image_path sp c (name im)])
                  (put_file (image_path sp c (name im)) (data im) w)
                = extract_image_loop E sp rest (Suc c + length pre) paths w1"
    using Cons.IH by blast
  with st show ?case
    by (simp add: Let_def put_file_twice)
qed

lemma loop_written:
  "extract_image_loop E sp (map Inr pre) c acc w = (Inr paths, w1) \<Longrightarrow>
     paths = acc @ map (\<lambda>(i, im). image_path sp i (name im)) (enumerate c pre)
   \<and> stdout w1 = stdout w
   \<and> (\<forall>i<length pre. files w1 (image_path sp (c + i) (name (pre ! i)))
          = Some (File (data (pre ! i))))
   \<and> (\<forall>p. (\<forall>i<length pre. p \<noteq> image_path sp (c + i) (name (pre ! i)))
          \<longrightarrow> files w1 p = files w p)"
proof (induction pre arbitrary: c acc w)
  case Nil
  then show ?case by simp
next
  case (Cons im pre)
  let ?p = "image_path sp c (name im)"
  let ?w2 = "put_file ?p (data im) w"
  from Cons.prems have s: "extract_image_loop E sp (Inr im # map Inr pre) c acc w = (Inr paths, w1)"
    by simp
  from loop_step_ok [OF s]
  have rest: "extract_image_loop E sp (map Inr pre) (Suc c) (acc @ [?p]) ?w2 = (Inr paths, w1)"
    by simp
  from Cons.IH [OF rest]
  have ih1: "paths = (acc @ [?p]) @ map (\<lambda>(i, im). image_path sp i (name im)) (enumerate (Suc c) pre)"
    and ih2: "stdout w1 = stdout ?w2"
    and ih3: "\<And>i. i < length pre \<Longrightarrow>
                files w1 (image_path sp (Suc c + i) (name (pre ! i))) = Some (File (data (pre ! i)))"
    and ih4: "\<And>p. (\<forall>i<length pre. p \<noteq> image_path sp (Suc c + i) (name (pre ! i)))
                \<Longrightarrow> files w1 p = files ?w2 p"
    by blast+
  have a: "paths = acc @ map (\<lambda>(i, im). image_path sp i (name im)) (enumerate c (im # pre))"
    using ih1 by simp
  have b: "stdout w1 = stdout w"
    using ih2 by (simp add: stdout_put_file)
  have first: "files w1 ?p = Some (File (data im))"
  proof -
    have "\<forall>i<length pre. ?p \<noteq> image_path sp (Suc c + i) (name (pre ! i))"
      using image_path_inj by fastforce
    then have "files w1 ?p = files ?w2 ?p" by (rule ih4)
    then show ?thesis by (simp add: files_put_file)
  qed
  have c: "\<forall>i<length (im # pre). files w1 (image_path sp (c + i) (name ((im # pre) ! i)))
             = Some (File (data ((im # pre) ! i)))"
  proof (intro allI impI)
    fix i assume i: "i < length (im # pre)"
    show "files w1 (image_path sp (c + i) (name ((im # pre) ! i)))
             = Some (File (data ((im # pre) ! i)))"
    proof (cases i)
      case 0
      then show ?thesis using first by simp
    next
      case (Suc j)
      with i have "j < length pre" by simp
      from ih3 [OF this] Suc show ?thesis by simp
    qed
  qed
  have d: "\<forall>p. (\<forall>i<length (im # pre). p \<noteq> image_path sp (c + i) (name ((im # pre) ! i)))
             \<longrightarrow> files w1 p = files w p"
  proof (intro allI impI)
    fix p assume np: "\<forall>i<length (im # pre). p \<noteq> image_path sp (c + i) (name ((im # pre) ! i))"
    from np have p0: "p \<noteq> ?p" by force
    have "\<forall>i<length pre. p \<noteq> image_path sp (Suc c + i) (name (pre ! i))"
    proof (intro allI impI)
      fix i assume "i < length pre"
      then have "Suc i < length (im # pre)" by simp
      with np have "p \<noteq> image_path sp (c + Suc i) (name ((im # pre) ! Suc i))" by blast
      then show "p \<noteq> image_path sp (Suc c + i) (name (pre ! i))" by simp
    qed
    then have "files w1 p = files ?w2 p" by (rule ih4)
    with p0 show "files w1 p = files w p" by (simp add: files_put_file)
  qed
  from a b c d show ?case by blast
qed


section \<open>The document reader\<close>

text \<open>
  Claim C10. \<open>read_document\<close> raises \<^verbatim>\<open>FileNotFoundError\<close> when the path does not exist,
  and then prints nothing; for an existing path whose decoding raises \<open>e\<close> it prints the
  diagnostic and returns \<^verbatim>\<open>None\<close>; for an existing path it never raises.
\<close>

theorem read_document_failure_policy:
  "(\<not> path_exists p w \<longrightarrow>
      get_document (PathV p) w = Inl (FileNotFoundError (''File '' @ p @ '' not found''))
    \<and> read_document E p w = (Inl (FileNotFoundError (''File '' @ p @ '' not found'')), w))
 \<and> (path_exists p w \<longrightarrow> PdfReader E w p = Inl e \<longrightarrow>
      read_document E p w = (Inr None, print (''Error reading document: '' @ str_exn e) w))
 \<and> (path_exists p w \<longrightarrow> (\<exists>r. fst (read_document E p w) = Inr r))"
  by (simp add: read_document_def get_document_def split: sum.splits)

text \<open>
  Claim C10 on a disk that holds \<^verbatim>\<open>broken.pdf\<close> and not \<^verbatim>\<open>missing.pdf\<close>, with a decoder
  that fails.
\<close>

theorem read_document_failure_policy_witness:
  "\<not> path_exists ''missing.pdf'' disk0
 \<and> read_document failing_env ''missing.pdf'' disk0
     = (Inl (FileNotFoundError ''File missing.pdf not found''), disk0)
 \<and> path_exists ''broken.pdf'' disk0
 \<and> PdfReader failing_env disk0 ''broken.pdf''
     = Inl (OtherError ''PdfReadError'' ''EOF marker not found'')
 \<and> read_document failing_env ''broken.pdf'' disk0
     = (Inr None, print ''Error reading document: EOF marker not found'' disk0)"
proof -
  have a: "\<not> path_exists ''missing.pdf'' disk0"
    by (simp add: path_exists_def disk0_def)
  have b: "path_exists ''broken.pdf'' disk0"
    by (simp add: path_exists_def disk0_def)
  have c: "PdfReader failing_env disk0 ''broken.pdf''
            = Inl (OtherError ''PdfReadError'' ''EOF marker not found'')"
    by (simp add: failing_env_def)
  show ?thesis
    using a b c
      read_document_failure_policy [of "''missing.pdf''" disk0 failing_env]
      read_document_failure_policy [of "''broken.pdf''" disk0 failing_env
        "OtherError ''PdfReadError'' ''EOF marker not found''"]
    by simp
qed

section \<open>The metadata extractor\<close>

text \<open>
  What \<open>get_document_meta_data\<close> does on a reader whose \<^verbatim>\<open>metadata\<close> is \<^verbatim>\<open>None\<close>, for
  every reader: line 150 reads \<^verbatim>\<open>data.title\<close> and raises.
\<close>

lemma meta_data_without_info_dictionary_general:
  "metadata r = None \<Longrightarrow>
   get_document_meta_data E (AReader r) w
     = (Inl (AttributeError
          (quoted ''NoneType'' @ '' object has no attribute '' @ quoted ''title'')), w)"
  by (simp add: get_document_meta_data_def meta_data_of_def)

text \<open>
  Claim C2 (the code does otherwise): a readable document without a metadata dictionary
  is to give a record whose fields are null. The source guards \<^verbatim>\<open>reader is None\<close> on line
  143 but not \<^verbatim>\<open>data\<close>, so on a one-page reader whose \<^verbatim>\<open>metadata\<close> is \<^verbatim>\<open>None\<close> the
  attribute access on line 150 raises \<^verbatim>\<open>AttributeError\<close> and no record is returned.
\<close>

theorem meta_data_without_info_dictionary_raises:
  "get_document_meta_data failing_env (AReader bare_reader) disk0
     = (Inl (AttributeError
          (quoted ''NoneType'' @ '' object has no attribute '' @ quoted ''title'')), disk0)"
  by (simp add: get_document_meta_data_def meta_data_of_def bare_reader_def)



section \<open>The page extractor\<close>

text \<open>
  Claim C5. A page number below 1 raises \<^verbatim>\<open>ValueError\<close> whatever the reader argument,
  the storage path and the platform are, and leaves the world as it was: nothing is
  printed and no file is written. The result does not depend on the platform or on the
  reader, so neither was consulted.
\<close>

theorem page_number_below_one_raises:
  "n < 1 \<Longrightarrow>
   extract_data_from_page E reader n sp w
     = (Inl (ValueError ''Page number should be greater than 0''), w)"
  by (simp add: extract_data_from_page_def)

text \<open>
  Claim C5 on page numbers 0 and -3, the first with a path that does not exist (which
  would raise \<^verbatim>\<open>FileNotFoundError\<close> were it resolved first).
\<close>

theorem page_number_below_one_raises_witness:
  "(0::int) < 1
 \<and> extract_data_from_page failing_env (APath ''missing.pdf'') 0 ''images'' disk0
     = (Inl (ValueError ''Page number should be greater than 0''), disk0)
 \<and> extract_data_from_page failing_env (AReader example_reader) (- 3) ''images'' disk0
     = (Inl (ValueError ''Page number should be greater than 0''), disk0)"
  using page_number_below_one_raises [of 0 failing_env "APath ''missing.pdf''" "''images''" disk0]
    page_number_below_one_raises [of "- 3" failing_env "AReader example_reader" "''images''" disk0]
  by simp

text \<open>
  Claim C4 as stated, for every requested page number, fails: with the unavailable
  handle and page number 0 the page extractor raises \<^verbatim>\<open>ValueError\<close>, because the test of
  the page number on line 211 precedes the test of the handle on line 213.
\<close>

theorem unavailable_handle_page_zero_counterexample:
  "extract_data_from_page failing_env ANone 0 ''images'' disk0
     = (Inl (ValueError ''Page number should be greater than 0''), disk0)
 \<and> fst (extract_data_from_page failing_env ANone 0 ''images'' disk0) \<noteq> Inr None"
  by (simp add: extract_data_from_page_def)

text \<open>
  Claim C4, amended: on the unavailable handle the metadata extractor returns \<^verbatim>\<open>None\<close>,
  and the page extractor returns \<^verbatim>\<open>None\<close> for every page number of at least 1; neither
  prints or writes anything.
\<close>

theorem unavailable_handle_gives_none:
  "get_document_meta_data E ANone w = (Inr None, w)
 \<and> (1 \<le> n \<longrightarrow> extract_data_from_page E ANone n sp w = (Inr None, w))"
  by (simp add: get_document_meta_data_def meta_data_of_def extract_data_from_page_def)

text \<open>
  Claim C4, amended, on page number 7.
\<close>

theorem unavailable_handle_gives_none_witness:
  "get_document_meta_data failing_env ANone disk0 = (Inr None, disk0)
 \<and> (1::int) \<le> 7
 \<and> extract_data_from_page failing_env ANone 7 ''images'' disk0 = (Inr None, disk0)"
  using unavailable_handle_gives_none [of failing_env disk0 7 "''images''"]
  by simp

text \<open>
  What \<open>extract_data_from_page\<close> does on the path of an existing file whose decoding
  fails, for every page number of at least 1: \<^verbatim>\<open>TypeError\<close> after the diagnostic of
  \<open>read_document\<close>.
\<close>

lemma page_of_undecodable_path_general:
  assumes "1 \<le> n" "path_exists p w" "PdfReader E w p = Inl e"
  shows "extract_data_from_page E (APath p) n sp w
     = (Inl (TypeError (quoted ''NoneType'' @ '' object does not support item assignment'')),
        print (''Error reading document: '' @ str_exn e) w)"
  using assms
  by (simp add: extract_data_from_page_def read_document_def get_document_def 
      get_document_meta_data_def meta_data_of_def)

text \<open>
  Claim C1 (the code does otherwise): for a path to an existing file whose decoding
  fails the page extractor is to return \<^verbatim>\<open>None\<close> and raise nothing. In the source the
  test \<^verbatim>\<open>reader is None\<close> on line 213 comes before the path is resolved on line 217. The
  \<^verbatim>\<open>None\<close> that \<open>read_document\<close> returns goes to \<open>get_document_meta_data\<close>, which
  answers \<^verbatim>\<open>None\<close>, and the assignment \<^verbatim>\<open>meta_data['page'] = ...\<close> on line 220, outside
  the \<^verbatim>\<open>try\<close> block, raises \<^verbatim>\<open>TypeError\<close>. Evaluated on \<^verbatim>\<open>broken.pdf\<close>, page 1.
\<close>

theorem page_of_undecodable_path_raises:
  "path_exists ''broken.pdf'' disk0
 \<and> read_document failing_env ''broken.pdf'' disk0
     = (Inr None, print ''Error reading document: EOF marker not found'' disk0)
 \<and> extract_data_from_page failing_env (APath ''broken.pdf'') 1 ''images'' disk0
     = (Inl (TypeError (quoted ''NoneType'' @ '' object does not support item assignment'')),
        print ''Error reading document: EOF marker not found'' disk0)"
  by (simp add: extract_data_from_page_def read_document_def get_document_def path_exists_def
      get_document_meta_data_def meta_data_of_def disk0_def failing_env_def print_def)

text \<open>
  The \<^verbatim>\<open>try\<close> block on a reader that has a metadata dictionary, for every page number of
  at least 1: an error \<open>e\<close> raised by indexing the pages (a number beyond the page count
  included), by the text extraction or by the image extractor (its
  \<^verbatim>\<open>ImageExtractionError\<close> included), leaving the world \<open>w1\<close>, is printed as a diagnostic
  and turned into \<^verbatim>\<open>None\<close>.
\<close>

lemma page_stage_error_is_soft:
  assumes "1 \<le> n"
    and "metadata r = Some d"
    and "pages_getitem r (nat (n - 1)) = Inl e \<and> w1 = w
       \<or> (\<exists>pg. pages_getitem r (nat (n - 1)) = Inr pg \<and> extract_text pg = Inl e \<and> w1 = w)
       \<or> (\<exists>pg t. pages_getitem r (nat (n - 1)) = Inr pg \<and> extract_text pg = Inr t
             \<and> extract_image E pg sp w = (Inl e, w1))"
  shows "extract_data_from_page E (AReader r) n sp w
           = (Inr None, print (''Error extracting text: '' @ str_exn e) w1)"
proof -
  from assms(3) have t: "try_extract E r (nat (n - 1)) sp w = (Inl e, w1)"
    by (auto simp add: try_extract_def)
  with assms(1,2) show ?thesis
    by (simp add: extract_data_from_page_def get_document_meta_data_def meta_data_of_def)
qed

text \<open>
  The previous lemma on page 11 of a ten-page document, on a page whose text extraction
  fails, and on a page whose second image cannot be written.
\<close>

lemma page_stage_error_is_soft_examples:
  "extract_data_from_page failing_env (AReader example_reader) 11 ''images'' disk0
     = (Inr None, print ''Error extracting text: sequence index out of range'' disk0)
 \<and> extract_data_from_page failing_env (AReader unreadable_reader) 1 ''images'' disk0
     = (Inr None, print ''Error extracting text: bad content stream'' disk0)
 \<and> extract_data_from_page readonly_after_first (AReader picture_reader) 1 ''images'' disk0
     = (Inr None,
        print ''Error extracting text: Error extracting image: [Errno 13] Permission denied''
          (put_file ''images/0_img1.png'' [1, 2] disk0))"
proof -
  have n1: "(1::int) \<le> 11" and n2: "(1::int) \<le> 1" by simp_all
  have a: "pages_getitem example_reader (nat (11 - 1))
             = Inl (IndexError ''sequence index out of range'') \<and> disk0 = disk0
        \<or> (\<exists>pg. pages_getitem example_reader (nat (11 - 1)) = Inr pg
              \<and> extract_text pg = Inl (IndexError ''sequence index out of range'')
              \<and> disk0 = disk0)
        \<or> (\<exists>pg t. pages_getitem example_reader (nat (11 - 1)) = Inr pg
              \<and> extract_text pg = Inr t
              \<and> extract_image failing_env pg ''images'' disk0
                  = (Inl (IndexError ''sequence index out of range''), disk0))"
    by (simp add: pages_getitem_def example_reader_def)
  have b: "pages_getitem unreadable_reader (nat (1 - 1))
             = Inl (OtherError ''PdfReadError'' ''bad content stream'') \<and> disk0 = disk0
        \<or> (\<exists>pg. pages_getitem unreadable_reader (nat (1 - 1)) = Inr pg
              \<and> extract_text pg = Inl (OtherError ''PdfReadError'' ''bad content stream'')
              \<and> disk0 = disk0)
        \<or> (\<exists>pg t. pages_getitem unreadable_reader (nat (1 - 1)) = Inr pg
              \<and> extract_text pg = Inr t
              \<and> extract_image failing_env pg ''images'' disk0
                  = (Inl (OtherError ''PdfReadError'' ''bad content stream''), disk0))"
    by (simp add: pages_getitem_def unreadable_reader_def unreadable_page_def)
  let ?e = "ImageExtractionError ''Error extracting image: [Errno 13] Permission denied''"
  let ?w1 = "put_file ''images/0_img1.png'' [1, 2] disk0"
  have x: "extract_image readonly_after_first two_image_page ''images'' disk0 = (Inl ?e, ?w1)"
    by (simp add: extract_image_def two_image_page_def image_path_def joinpath_def
        str_nat_0 str_nat_1 img1_def img2_def readonly_after_first_def disk0_def put_file_def
        Let_def wrap_image_error_def)
  have c: "pages_getitem picture_reader (nat (1 - 1)) = Inl ?e \<and> ?w1 = disk0
        \<or> (\<exists>pg. pages_getitem picture_reader (nat (1 - 1)) = Inr pg
              \<and> extract_text pg = Inl ?e \<and> ?w1 = disk0)
        \<or> (\<exists>pg t. pages_getitem picture_reader (nat (1 - 1)) = Inr pg
              \<and> extract_text pg = Inr t
              \<and> extract_image readonly_after_first pg ''images'' disk0 = (Inl ?e, ?w1))"
    using x by (simp add: pages_getitem_def picture_reader_def two_image_page_def)
  have ma: "metadata example_reader = Some example_info" by (simp add: example_reader_def)
  have mb: "metadata unreadable_reader = Some example_info" by (simp add: unreadable_reader_def)
  have mc: "metadata picture_reader = Some example_info" by (simp add: picture_reader_def)
  show ?thesis
    using page_stage_error_is_soft [OF n1 ma a]
      page_stage_error_is_soft [OF n2 mb b]
      page_stage_error_is_soft [OF n2 mc c]
    by simp
qed

text \<open>
  The same function on a reader whose \<^verbatim>\<open>metadata\<close> is \<^verbatim>\<open>None\<close>, for every page number of
  at least 1: the call of \<open>get_document_meta_data\<close> on line 219 stands before the \<^verbatim>\<open>try\<close>
  block, so its \<^verbatim>\<open>AttributeError\<close> leaves the function and the page is never indexed.
\<close>

lemma page_without_info_dictionary_general:
  assumes "1 \<le> n" and "metadata r = None"
  shows "extract_data_from_page E (AReader r) n sp w
           = (Inl (AttributeError
                (quoted ''NoneType'' @ '' object has no attribute '' @ quoted ''title'')), w)"
  using assms
  by (simp add: extract_data_from_page_def get_document_meta_data_def meta_data_of_def)

text \<open>
  Claim C6 (the code does otherwise): for every open reader and every page number of at
  least 1, an error of page indexing, a page number beyond the page count included, is to
  be reported as a diagnostic and turned into \<^verbatim>\<open>None\<close>, and no error is to leave the page
  extractor. On the one-page reader without a metadata dictionary and page number 2,
  which is beyond the page count, nothing is printed, no \<^verbatim>\<open>None\<close> is returned and
  \<^verbatim>\<open>AttributeError\<close> is raised: the unguarded \<^verbatim>\<open>data.title\<close> of line 150, reached through
  line 219 ahead of the \<^verbatim>\<open>try\<close> block.
\<close>

theorem page_beyond_count_without_info_dictionary_raises:
  "metadata bare_reader = None
 \<and> length (pages bare_reader) = 1
 \<and> pages_getitem bare_reader (nat (2 - 1)) = Inl (IndexError ''sequence index out of range'')
 \<and> extract_data_from_page failing_env (AReader bare_reader) 2 ''images'' disk0
     = (Inl (AttributeError
          (quoted ''NoneType'' @ '' object has no attribute '' @ quoted ''title'')), disk0)
 \<and> fst (extract_data_from_page failing_env (AReader bare_reader) 2 ''images'' disk0)
     \<noteq> Inr None"
  by (simp add: extract_data_from_page_def get_document_meta_data_def meta_data_of_def
      pages_getitem_def bare_reader_def)

text \<open>
  Claim C9 as stated, a result for every valid page number, fails: page 1 of a one-page
  document whose text extraction raises gives \<^verbatim>\<open>None\<close>, by the \<^verbatim>\<open>except\<close> clause on line
  225.
\<close>

theorem valid_page_without_result_counterexample:
  "1 \<le> (1::int) \<and> (1::int) \<le> int (length (pages unreadable_reader))
 \<and> extract_data_from_page failing_env (AReader unreadable_reader) 1 ''images'' disk0
     = (Inr None, print ''Error extracting text: bad content stream'' disk0)"
  by (simp add: extract_data_from_page_def get_document_meta_data_def meta_data_of_def
      try_extract_def pages_getitem_def unreadable_reader_def unreadable_page_def
      example_info_def)

text \<open>
  Claim C9, amended: for an open document with a metadata dictionary and a page number
  \<open>k\<close> between 1 and the page count, whenever the page, its text and its images are
  extracted without error, the result carries the text, the image paths and the
  document-level dictionary extended with \<^verbatim>\<open>page\<close> set to \<open>k\<close>; the document-level
  dictionary itself has no such key.
\<close>

theorem extracted_page_carries_its_number:
  assumes "metadata r = Some d"
    and "1 \<le> k" and "k \<le> int (length (pages r))"
    and "pages r ! nat (k - 1) = Inr pg"
    and "extract_text pg = Inr text"
    and "extract_image E pg sp w = (Inr imgs, w1)"
  shows "\<exists>md m. get_document_meta_data E (AReader r) w = (Inr (Some md), w)
           \<and> extract_data_from_page E (AReader r) k sp w = (Inr (Some (text, imgs, m)), w1)
           \<and> m = md(''page'' \<mapsto> IntV k)
           \<and> m ''page'' = Some (IntV k)
           \<and> md ''page'' = None"
proof -
  from assms(2,3) have i: "nat (k - 1) < length (pages r)" by linarith
  with assms(4,5,6) have t: "try_extract E r (nat (k - 1)) sp w = (Inr (text, imgs), w1)"
    by (simp add: try_extract_def pages_getitem_def)
  from assms(1,2) t show ?thesis
    by (simp add: extract_data_from_page_def get_document_meta_data_def meta_data_of_def)
qed

text \<open>
  Claim C9, amended, on page 4 of the ten-page example.
\<close>

theorem extracted_page_carries_its_number_witness:
  "extract_data_from_page failing_env (AReader example_reader) 4 ''images'' disk0
     = (Inr (Some (''hello'', [], example_meta(''page'' \<mapsto> IntV 4))), disk0)
 \<and> get_document_meta_data failing_env (AReader example_reader) disk0
     = (Inr (Some example_meta), disk0)"
proof -
  have a: "metadata example_reader = Some example_info"
    by (simp add: example_reader_def)
  have b: "(1::int) \<le> 4" by simp
  have c: "(4::int) \<le> int (length (pages example_reader))"
    by (simp add: example_reader_def)
  have d: "pages example_reader ! nat (4 - 1) = Inr blank_page"
    by (simp add: example_reader_def)
  have e: "extract_text blank_page = Inr ''hello''"
    by (simp add: blank_page_def)
  have f: "extract_image failing_env blank_page ''images'' disk0 = (Inr [], disk0)"
    by (simp add: extract_image_def blank_page_def)
  have g: "get_document_meta_data failing_env (AReader example_reader) disk0
     = (Inr (Some example_meta), disk0)"
    by (simp add: get_document_meta_data_def meta_data_of_def example_reader_def
        example_info_def example_meta_def)
  from extracted_page_carries_its_number [OF a b c d e f] g
  show ?thesis by auto
qed

section \<open>The image extractor\<close>



text \<open>
  Claim C8. Let the images before \<open>im\<close> have been written, leaving the world \<open>w1\<close>, and
  let opening or writing the file \<open>p\<close> of \<open>im\<close> fail with \<open>e\<close>. Then \<open>extract_image\<close>
  raises \<^verbatim>\<open>ImageExtractionError\<close> with the text of \<open>e\<close> in its message, the files of the
  earlier images still hold their data, and apart from those and \<open>p\<close> no file has
  changed: the images after \<open>im\<close> were not attempted.
\<close>

theorem extract_image_failure_keeps_earlier_files:
  assumes "images pg = map Inr (pre @ im # post)"
    and "extract_image E (pg\<lparr>images := map Inr pre\<rparr>) sp w = (Inr paths, w1)"
    and "p = joinpath sp (str_nat (length pre) @ ''_'' @ name im)"
    and "open_wb E w1 p = Some e \<and> w2 = w1
       \<or> open_wb E w1 p = None
         \<and> fp_write E (put_file p [] w1) p (data im) = Some (e, written)
         \<and> w2 = put_file p written w1"
  shows "extract_image E pg sp w
           = (Inl (ImageExtractionError (''Error extracting image: '' @ str_exn e)), w2)
     \<and> (\<forall>i<length pre. files w2 (joinpath sp (str_nat i @ ''_'' @ name (pre ! i)))
            = Some (File (data (pre ! i))))
     \<and> (\<forall>q. q \<noteq> p \<and> (\<forall>i<length pre. q \<noteq> joinpath sp (str_nat i @ ''_'' @ name (pre ! i)))
            \<longrightarrow> files w2 q = files w q)"
proof -
  from assms(2) have r: "extract_image_loop E sp (map Inr pre) 0 [] w = (Inr paths, w1)"
    by (simp add: extract_image_def)
  have p: "p = image_path sp (length pre) (name im)"
    using assms(3) by (simp add: image_path_def)
  from loop_written [OF r]
  have wr: "\<And>i. i < length pre \<Longrightarrow>
              files w1 (image_path sp i (name (pre ! i))) = Some (File (data (pre ! i)))"
    and un: "\<And>q. (\<forall>i<length pre. q \<noteq> image_path sp i (name (pre ! i)))
              \<Longrightarrow> files w1 q = files w q"
    by simp_all
  have "extract_image E pg sp w
          = extract_image_loop E sp (Inr im # map Inr post) (length pre) paths w1"
    using loop_prefix [OF r, of "Inr im # map Inr post"] assms(1)
    by (simp add: extract_image_def)
  also have "\<dots> = (Inl (wrap_image_error e), w2)"
    using assms(4) p by (auto simp add: Let_def put_file_twice)
  finally have res: "extract_image E pg sp w
           = (Inl (ImageExtractionError (''Error extracting image: '' @ str_exn e)), w2)"
    by (simp add: wrap_image_error_def)
  have fw2: "files w2 q = files w1 q" if "q \<noteq> p" for q
    using assms(4) that by (auto simp add: files_put_file)
  have earlier: "\<forall>i<length pre. files w2 (joinpath sp (str_nat i @ ''_'' @ name (pre ! i)))
            = Some (File (data (pre ! i)))"
  proof (intro allI impI)
    fix i assume i: "i < length pre"
    have "image_path sp i (name (pre ! i)) \<noteq> p"
      using image_path_inj [of sp i "name (pre ! i)" "length pre" "name im"] i p by auto
    from fw2 [OF this] wr [OF i]
    show "files w2 (joinpath sp (str_nat i @ ''_'' @ name (pre ! i)))
            = Some (File (data (pre ! i)))"
      by (simp add: image_path_def)
  qed
  have others: "\<forall>q. q \<noteq> p \<and> (\<forall>i<length pre. q \<noteq> joinpath sp (str_nat i @ ''_'' @ name (pre ! i)))
            \<longrightarrow> files w2 q = files w q"
  proof (intro allI impI)
    fix q assume q: "q \<noteq> p \<and> (\<forall>i<length pre. q \<noteq> joinpath sp (str_nat i @ ''_'' @ name (pre ! i)))"
    then have "\<forall>i<length pre. q \<noteq> image_path sp i (name (pre ! i))"
      by (simp add: image_path_def)
    from un [OF this] fw2 q show "files w2 q = files w q" by simp
  qed
  from res earlier others show ?thesis by blast
qed

text \<open>
  Claim C8 on the page with two images, when the directory turns read-only after the
  first (\<^verbatim>\<open>0_img1.png\<close> stays on disk and \<^verbatim>\<open>1_img2.png\<close> is not created) and when the
  write of the second fails after its file was opened (\<^verbatim>\<open>0_img1.png\<close> stays on disk).
\<close>

theorem extract_image_failure_keeps_earlier_files_witness:
  "extract_image readonly_after_first two_image_page ''images'' disk0
     = (Inl (ImageExtractionError ''Error extracting image: [Errno 13] Permission denied''),
        put_file ''images/0_img1.png'' [1, 2] disk0)
 \<and> files (put_file ''images/0_img1.png'' [1, 2] disk0) ''images/0_img1.png''
     = Some (File [1, 2])
 \<and> files (put_file ''images/0_img1.png'' [1, 2] disk0) ''images/1_img2.png'' = None
 \<and> extract_image disk_full_after_first two_image_page ''images'' disk0
     = (Inl (ImageExtractionError
          ''Error extracting image: [Errno 28] No space left on device''),
        put_file ''images/1_img2.png'' [] (put_file ''images/0_img1.png'' [1, 2] disk0))
 \<and> files (put_file ''images/1_img2.png'' [] (put_file ''images/0_img1.png'' [1, 2] disk0))
       ''images/0_img1.png'' = Some (File [1, 2])"
proof -
  let ?w1 = "put_file ''images/0_img1.png'' [1, 2] disk0"
  have a: "images two_image_page = map Inr ([img1] @ img2 # [])"
    by (simp add: two_image_page_def)
  have b: "extract_image readonly_after_first (two_image_page\<lparr>images := map Inr [img1]\<rparr>)
             ''images'' disk0 = (Inr [''images/0_img1.png''], ?w1)"
    by (simp add: extract_image_def image_path_def joinpath_def str_nat_0 img1_def
        readonly_after_first_def disk0_def put_file_def Let_def)
  have c: "''images/1_img2.png'' = joinpath ''images'' (str_nat (length [img1]) @ ''_'' @ name img2)"
    by (simp add: joinpath_def str_nat_1 img2_def)
  have d: "open_wb readonly_after_first ?w1 ''images/1_img2.png''
             = Some (OtherError ''PermissionError'' ''[Errno 13] Permission denied'')
           \<and> ?w1 = ?w1
         \<or> open_wb readonly_after_first ?w1 ''images/1_img2.png'' = None
           \<and> fp_write readonly_after_first (put_file ''images/1_img2.png'' [] ?w1)
               ''images/1_img2.png'' (data img2)
               = Some (OtherError ''PermissionError'' ''[Errno 13] Permission denied'', [])
           \<and> ?w1 = put_file ''images/1_img2.png'' [] ?w1"
    by (simp add: readonly_after_first_def put_file_def)
  from extract_image_failure_keeps_earlier_files [OF a b c d]
  have r: "extract_image readonly_after_first two_image_page ''images'' disk0
     = (Inl (ImageExtractionError ''Error extracting image: [Errno 13] Permission denied''), ?w1)"
    and f: "\<forall>i<length [img1].
              files ?w1 (joinpath ''images'' (str_nat i @ ''_'' @ name ([img1] ! i)))
                = Some (File (data ([img1] ! i)))"
    by simp_all
  from f [rule_format, of 0] have f0: "files ?w1 ''images/0_img1.png'' = Some (File [1, 2])"
    by (simp add: joinpath_def str_nat_0 img1_def)
  have n: "files ?w1 ''images/1_img2.png'' = None"
    by (simp add: put_file_def disk0_def)
  let ?e = "OtherError ''OSError'' ''[Errno 28] No space left on device''"
  have b': "extract_image disk_full_after_first (two_image_page\<lparr>images := map Inr [img1]\<rparr>)
             ''images'' disk0 = (Inr [''images/0_img1.png''], ?w1)"
    by (simp add: extract_image_def image_path_def joinpath_def str_nat_0 img1_def
        disk_full_after_first_def disk0_def put_file_def Let_def)
  have d': "open_wb disk_full_after_first ?w1 ''images/1_img2.png'' = Some ?e
           \<and> put_file ''images/1_img2.png'' [] ?w1 = ?w1
         \<or> open_wb disk_full_after_first ?w1 ''images/1_img2.png'' = None
           \<and> fp_write disk_full_after_first (put_file ''images/1_img2.png'' [] ?w1)
               ''images/1_img2.png'' (data img2) = Some (?e, [])
           \<and> put_file ''images/1_img2.png'' [] ?w1 = put_file ''images/1_img2.png'' [] ?w1"
    by (simp add: disk_full_after_first_def)
  from extract_image_failure_keeps_earlier_files [OF a b' c d']
  have r': "extract_image disk_full_after_first two_image_page ''images'' disk0
     = (Inl (ImageExtractionError
          ''Error extracting image: [Errno 28] No space left on device''),
        put_file ''images/1_img2.png'' [] ?w1)"
    and f': "\<forall>i<length [img1].
              files (put_file ''images/1_img2.png'' [] ?w1)
                (joinpath ''images'' (str_nat i @ ''_'' @ name ([img1] ! i)))
                = Some (File (data ([img1] ! i)))"
    by simp_all
  from f' [rule_format, of 0]
  have f0': "files (put_file ''images/1_img2.png'' [] ?w1) ''images/0_img1.png''
              = Some (File [1, 2])"
    by (simp add: joinpath_def str_nat_0 img1_def)
  from r f0 n r' f0' show ?thesis by blast
qed

end
